theory Spec2Isabelle
  imports Complex_Main "HOL-Library.Multiset"
begin

section \<open>CascadeRouter: the routing engine and the usage limiter\<close>

text \<open>
  A shallow embedding of the TypeScript classes \<open>Router\<close> (core/router.ts) and
  \<open>TokenLimiter\<close> (core/limiter.ts) and of the types they use (types.ts).

  The repository holds two copies of core/router.ts. The first, src/unnamed/part_004,
  has the six sequential strategies only. The second, the TypeScript file that follows
  IMPROVEMENTS_APPLIED.md, adds the speculative strategy (a dispatch in \<open>route\<close> to
  \<open>routeWithSpeculativeExecution\<close>, \<open>selectSpeculativeCandidates\<close>, and a case of
  \<open>selectProviders\<close> that returns the enabled identifiers unsorted) and writes the
  latency update of \<open>updateMetrics\<close> in its incremental form. Everything else is the
  same text in both. The embedding follows part_004 and takes
  \<open>selectSpeculativeCandidates\<close> and the incremental latency update from the second
  copy, under their own names.

  Conventions.
  \<^item> A JavaScript \<open>number\<close> is the \<open>real\<close> it denotes; NaN and the infinities are
    not modelled. The balanced score is the one computed value whose order decides a
    result, and there every constant and every operation is rounded to binary64 as
    the code rounds it. The sums and averages of the limiter and of the metrics are
    kept exact.
  \<^item> A \<open>Map\<close> is an association list in insertion order with distinct keys;
    \<open>Map.set\<close> replaces the value of a present key in place and appends a new key.
  \<^item> A thrown exception is the \<open>Inl\<close> of a sum; a method that mutates the router
    returns the new router.
  \<^item> \<open>Date.now()\<close> is a clock value passed in; during \<open>route\<close> the clock advances by
    the time each awaited provider call takes.
\<close>

subsection \<open>Types (types.ts)\<close>

datatype RoutingStrategy = Cost | Speed | Quality | Balanced | Priority | Fallback

text \<open>
  \<open>ProviderConfig\<close>: the fields the router reads. The fields \<open>name\<close>, \<open>type\<close>,
  \<open>maxTokens\<close>, \<open>timeout\<close>, \<open>apiKey\<close>, \<open>baseUrl\<close>, \<open>model\<close> are never read by the
  router or the limiter and are left out.
\<close>

record ProviderConfig =
  cfg_id :: string
  enabled :: bool
  priority :: real
  costPerMillionTokens :: real
  latency :: real
  availability :: real

record Tokens =
  tok_input :: real
  tok_output :: real
  tok_total :: real

record ChatRequest =
  prompt :: string
  messages :: "(string \<times> string) list option"
  maxTokens :: "real option"

record ChatResponse =
  content :: string
  resp_provider :: string
  tokens :: Tokens
  cost :: real
  resp_duration :: real

text \<open>
  What one awaited call of \<open>provider.chat\<close> or \<open>provider.chatStream\<close> does, as the router
  sees it: the milliseconds that pass on the clock, and either the message of the
  thrown error (\<open>Inl\<close>) or the response (\<open>Inr\<close>).
\<close>

type_synonym ChatOutcome = "real \<times> (string + ChatResponse)"

record Provider =
  pid :: string
  config :: ProviderConfig
  chat :: "ChatRequest \<Rightarrow> ChatOutcome"
  chatStream :: "ChatRequest \<Rightarrow> ChatOutcome"

subsection \<open>JavaScript Map and Array.prototype.sort\<close>

fun Map_set :: "'k \<Rightarrow> 'v \<Rightarrow> ('k \<times> 'v) list \<Rightarrow> ('k \<times> 'v) list" where
  "Map_set k v [] = [(k, v)]"
| "Map_set k v ((k', v') # m) = (if k' = k then (k, v) # m else (k', v') # Map_set k v m)"

definition Map_get :: "('k \<times> 'v) list \<Rightarrow> 'k \<Rightarrow> 'v option" where
  "Map_get m k = map_of m k"

text \<open>
  \<open>xs.sort(cmp)\<close>. The sort of ECMAScript is stable, and \<open>a\<close> goes before \<open>b\<close> when
  \<open>cmp(a, b) < 0\<close>. Every comparator of the router is a difference of keys, hence
  consistent, and then the result is the one stable ordering; insertion from the right
  computes it: an element is put in front of the first later element it does not
  exceed.
\<close>

fun sort_insert :: "('a \<Rightarrow> 'a \<Rightarrow> real) \<Rightarrow> 'a \<Rightarrow> 'a list \<Rightarrow> 'a list" where
  "sort_insert cmp x [] = [x]"
| "sort_insert cmp x (y # ys) =
     (if cmp x y \<le> 0 then x # y # ys else y # sort_insert cmp x ys)"

definition Array_sort :: "('a \<Rightarrow> 'a \<Rightarrow> real) \<Rightarrow> 'a list \<Rightarrow> 'a list" where
  "Array_sort cmp xs = foldr (sort_insert cmp) xs []"

text \<open>
  \<open>xs.slice(0, end)\<close> for an integral \<open>end\<close>: a negative \<open>end\<close> counts from the end of
  the array.
\<close>

definition Array_slice0 :: "'a list \<Rightarrow> int \<Rightarrow> 'a list" where
  "Array_slice0 xs e =
     (let len = int (length xs);
          final = (if e < 0 then max (len + e) 0 else min e len)
      in take (nat final) xs)"

subsection \<open>Candidate selection (Router, private methods)\<close>

text \<open>\<open>this.providers.get(a)!.config\<close>: the identifiers sorted are keys of the map.\<close>

definition configOf :: "(string \<times> Provider) list \<Rightarrow> string \<Rightarrow> ProviderConfig" where
  "configOf ps a = config (the (Map_get ps a))"

definition sortByCost :: "(string \<times> Provider) list \<Rightarrow> string list \<Rightarrow> string list" where
  "sortByCost ps providerIds =
     Array_sort (\<lambda>a b. costPerMillionTokens (configOf ps a) - costPerMillionTokens (configOf ps b))
       providerIds"

definition sortBySpeed :: "(string \<times> Provider) list \<Rightarrow> string list \<Rightarrow> string list" where
  "sortBySpeed ps providerIds =
     Array_sort (\<lambda>a b. latency (configOf ps a) - latency (configOf ps b)) providerIds"

definition sortByQuality :: "(string \<times> Provider) list \<Rightarrow> string list \<Rightarrow> string list" where
  "sortByQuality ps providerIds =
     Array_sort (\<lambda>a b. priority (configOf ps a) - priority (configOf ps b)) providerIds"

definition sortByPriority :: "(string \<times> Provider) list \<Rightarrow> string list \<Rightarrow> string list" where
  "sortByPriority ps providerIds =
     Array_sort (\<lambda>a b. priority (configOf ps a) - priority (configOf ps b)) providerIds"

text \<open>
  Binary64 arithmetic. \<open>binary64 x\<close> is the double nearest to \<open>x\<close>, ties to the even
  significand: 53 significant bits from the exponent \<open>-1022\<close> upwards, multiples of
  \<open>2 powr (-1074)\<close> below it. Overflow to an infinity is not modelled. An operation of
  JavaScript on two doubles is the exact operation followed by this rounding.
\<close>

definition roundTiesToEven :: "real \<Rightarrow> int" where
  "roundTiesToEven y =
     (let f = \<lfloor>y\<rfloor>; d = y - of_int f
      in if d < 1 / 2 then f else if d > 1 / 2 then f + 1 else if even f then f else f + 1)"

definition binary64 :: "real \<Rightarrow> real" where
  "binary64 x =
     (if x = 0 then 0
      else let e = max \<lfloor>log 2 \<bar>x\<bar>\<rfloor> (- 1022);
               ulp = 2 powr (of_int (e - 52))
           in of_int (roundTiesToEven (x / ulp)) * ulp)"

definition fadd :: "real \<Rightarrow> real \<Rightarrow> real" where
  "fadd a b = binary64 (a + b)"

definition fsub :: "real \<Rightarrow> real \<Rightarrow> real" where
  "fsub a b = binary64 (a - b)"

definition fmul :: "real \<Rightarrow> real \<Rightarrow> real" where
  "fmul a b = binary64 (a * b)"

definition fdiv :: "real \<Rightarrow> real \<Rightarrow> real" where
  "fdiv a b = binary64 (a / b)"

text \<open>
  The score computed inside \<open>sortByBalanced\<close> for one provider: the literals
  \<open>0.4\<close>, \<open>0.3\<close>, \<open>0.2\<close>, \<open>0.1\<close> are the doubles nearest to them, and the sum is
  taken from the left.
\<close>

definition balancedScore :: "ProviderConfig \<Rightarrow> real" where
  "balancedScore c =
     (let costScore = fsub 1 (fdiv (costPerMillionTokens c) 100);
          speedScore = fsub 1 (fdiv (latency c) 10000);
          qualityScore = fsub 1 (fdiv (priority c) 100);
          availabilityScore = availability c
      in fadd (fadd (fadd (fmul costScore (binary64 0.4)) (fmul speedScore (binary64 0.3)))
                    (fmul qualityScore (binary64 0.2)))
              (fmul availabilityScore (binary64 0.1)))"

text \<open>
  The comparator of \<open>sortByBalanced\<close> is \<open>b.score - a.score\<close> on two doubles; the
  rounded difference of two doubles has the sign of their exact difference.
\<close>

definition sortByBalanced :: "(string \<times> Provider) list \<Rightarrow> string list \<Rightarrow> string list" where
  "sortByBalanced ps providerIds =
     (let scores = map (\<lambda>i. (i, balancedScore (configOf ps i))) providerIds
      in map fst (Array_sort (\<lambda>a b. snd b - snd a) scores))"


definition availableProviders :: "(string \<times> Provider) list \<Rightarrow> string list" where
  "availableProviders ps = map fst (filter (\<lambda>(i, provider). enabled (config provider)) ps)"

subsection \<open>Usage limiter (TokenLimiter)\<close>

text \<open>
  The ceilings are optional: \<open>None\<close> is a field that is absent (\<open>undefined\<close>), for
  which every comparison of JavaScript is false. The field \<open>alertThreshold\<close> and
  \<open>concurrentRequests\<close> are never read. The \<open>reason\<close> texts, which format numbers, are
  left out of the check results and of the errors built from them.
\<close>

record BudgetLimits =
  dailyTokens :: "real option"
  dailyCost :: "real option"
  monthlyTokens :: "real option"
  monthlyCost :: "real option"

record RateLimits =
  requestsPerMinute :: "real option"
  tokensPerMinute :: "real option"

datatype BudgetType = Daily | Monthly

record BudgetCheck =
  allowed :: bool
  budgetType :: "BudgetType option"
  usage :: real
  limit :: "real option"

record RateLimitCheck =
  rl_allowed :: bool
  retryAfter :: "int option"

record UsageRecord =
  ur_tokens :: real
  ur_cost :: real
  ur_timestamp :: real

record TokenLimiter =
  budgetLimits :: "BudgetLimits option"
  rateLimits :: "RateLimits option"
  dailyUsage :: "UsageRecord list"
  monthlyUsage :: "UsageRecord list"
  requestHistory :: "real list"
  tokenUsageHistory :: "(real \<times> real) list"

definition new_TokenLimiter :: "BudgetLimits option \<Rightarrow> RateLimits option \<Rightarrow> TokenLimiter" where
  "new_TokenLimiter bl rl =
     \<lparr>budgetLimits = bl, rateLimits = rl, dailyUsage = [], monthlyUsage = [],
      requestHistory = [], tokenUsageHistory = []\<rparr>"

definition estimateTextTokens :: "string \<Rightarrow> real" where
  "estimateTextTokens text = of_int \<lceil>real (length text) / 4\<rceil>"

definition estimateRequestTokens :: "ChatRequest \<Rightarrow> real" where
  "estimateRequestTokens request =
     (let t0 = estimateTextTokens (prompt request);
          t1 = (case messages request of
                  None \<Rightarrow> t0
                | Some ms \<Rightarrow> foldl (\<lambda>total m. total + estimateTextTokens (snd m)) t0 ms)
      in case maxTokens request of
           None \<Rightarrow> t1 + 500
         | Some m \<Rightarrow> if m \<noteq> 0 then t1 + m else t1 + 500)"

definition estimateCost :: "real \<Rightarrow> real" where
  "estimateCost tks = (let costPerMillion = 1 in (tks / 1000000) * costPerMillion)"

definition usageSince :: "real \<Rightarrow> UsageRecord list \<Rightarrow> real \<times> real" where
  "usageSince since records =
     (let recent = filter (\<lambda>r. ur_timestamp r > since) records
      in (foldl (\<lambda>sum r. sum + ur_tokens r) 0 recent,
          foldl (\<lambda>sum r. sum + ur_cost r) 0 recent))"

definition calculateDailyUsage :: "TokenLimiter \<Rightarrow> real \<Rightarrow> real \<times> real" where
  "calculateDailyUsage l now = usageSince (now - 86400000) (dailyUsage l)"

definition calculateMonthlyUsage :: "TokenLimiter \<Rightarrow> real \<Rightarrow> real \<times> real" where
  "calculateMonthlyUsage l now = usageSince (now - 2592000000) (monthlyUsage l)"

text \<open>
  \<open>if (limit > 0) { if (after > limit) return not-allowed }\<close>: the test that a
  ceiling is configured and exceeded.
\<close>

definition exceeded :: "real \<Rightarrow> real option \<Rightarrow> bool" where
  "exceeded after cap = (case cap of None \<Rightarrow> False | Some c \<Rightarrow> c > 0 \<and> after > c)"

definition checkBudget :: "TokenLimiter \<Rightarrow> real \<Rightarrow> ChatRequest \<Rightarrow> BudgetCheck" where
  "checkBudget l now request =
     (case budgetLimits l of
        None \<Rightarrow> \<lparr>allowed = True, budgetType = None, usage = 0, limit = Some 0\<rparr>
      | Some bl \<Rightarrow>
          let estimatedTokens = estimateRequestTokens request;
              estimatedCost = estimateCost estimatedTokens;
              daily = calculateDailyUsage l now;
              dailyTokensAfter = fst daily + estimatedTokens;
              dailyCostAfter = snd daily + estimatedCost;
              monthly = calculateMonthlyUsage l now;
              monthlyTokensAfter = fst monthly + estimatedTokens;
              monthlyCostAfter = snd monthly + estimatedCost
          in if exceeded dailyTokensAfter (dailyTokens bl) then
               \<lparr>allowed = False, budgetType = Some Daily, usage = dailyTokensAfter,
                limit = dailyTokens bl\<rparr>
             else if exceeded dailyCostAfter (dailyCost bl) then
               \<lparr>allowed = False, budgetType = Some Daily, usage = dailyCostAfter,
                limit = dailyCost bl\<rparr>
             else if exceeded monthlyTokensAfter (monthlyTokens bl) then
               \<lparr>allowed = False, budgetType = Some Monthly, usage = monthlyTokensAfter,
                limit = monthlyTokens bl\<rparr>
             else if exceeded monthlyCostAfter (monthlyCost bl) then
               \<lparr>allowed = False, budgetType = Some Monthly, usage = monthlyCostAfter,
                limit = monthlyCost bl\<rparr>
             else \<lparr>allowed = True, budgetType = None, usage = dailyCostAfter,
                   limit = dailyCost bl\<rparr>)"

definition reached :: "real \<Rightarrow> real option \<Rightarrow> bool" where
  "reached n cap = (case cap of None \<Rightarrow> False | Some c \<Rightarrow> c > 0 \<and> n \<ge> c)"

definition checkRateLimits :: "TokenLimiter \<Rightarrow> real \<Rightarrow> RateLimitCheck" where
  "checkRateLimits l now =
     (case rateLimits l of
        None \<Rightarrow> \<lparr>rl_allowed = True, retryAfter = None\<rparr>
      | Some rl \<Rightarrow>
          let oneMinuteAgo = now - 60000;
              recentRequests = filter (\<lambda>timestamp. timestamp > oneMinuteAgo) (requestHistory l);
              recentTokens = foldl (\<lambda>sum r. sum + snd r) 0
                               (filter (\<lambda>r. fst r > oneMinuteAgo) (tokenUsageHistory l))
          in if reached (real (length recentRequests)) (requestsPerMinute rl) then
               \<lparr>rl_allowed = False,
                retryAfter = Some \<lceil>(hd recentRequests + 60000 - now) / 1000\<rceil>\<rparr>
             else if reached recentTokens (tokensPerMinute rl) then
               \<lparr>rl_allowed = False, retryAfter = None\<rparr>
             else \<lparr>rl_allowed = True, retryAfter = None\<rparr>)"

definition cleanupOldRecords :: "TokenLimiter \<Rightarrow> real \<Rightarrow> TokenLimiter" where
  "cleanupOldRecords l now =
     l\<lparr>dailyUsage := filter (\<lambda>r. ur_timestamp r > now - 86400000) (dailyUsage l),
       monthlyUsage := filter (\<lambda>r. ur_timestamp r > now - 2592000000) (monthlyUsage l),
       requestHistory := filter (\<lambda>t. t > now - 60000) (requestHistory l),
       tokenUsageHistory := filter (\<lambda>r. fst r > now - 60000) (tokenUsageHistory l)\<rparr>"

definition recordUsage :: "TokenLimiter \<Rightarrow> real \<Rightarrow> Tokens \<Rightarrow> TokenLimiter" where
  "recordUsage l now tks =
     (let c = estimateCost (tok_total tks);
          r = \<lparr>ur_tokens = tok_total tks, ur_cost = c, ur_timestamp = now\<rparr>
      in cleanupOldRecords
           (l\<lparr>requestHistory := requestHistory l @ [now],
              tokenUsageHistory := tokenUsageHistory l @ [(now, tok_total tks)],
              dailyUsage := dailyUsage l @ [r],
              monthlyUsage := monthlyUsage l @ [r]\<rparr>) now)"


subsection \<open>Router state\<close>

text \<open>
  \<open>RoutingConfig\<close>: the fields \<open>providers\<close>, \<open>defaultProvider\<close>, \<open>maxRetries\<close>,
  \<open>timeout\<close> and \<open>progressCheckpoints\<close> are not read by the methods modelled here. The
  progress monitor is started without a callback and hands the provider's result or
  error through unchanged, so it is left out.
\<close>

record RoutingConfig =
  strategy :: RoutingStrategy
  fallbackEnabled :: bool
  cfg_budgetLimits :: "BudgetLimits option"
  cfg_rateLimits :: "RateLimits option"

record ProviderMetrics =
  providerId :: string
  requestCount :: real
  successCount :: real
  failureCount :: real
  pm_totalTokens :: real
  pm_totalCost :: real
  avgLatency :: real
  lastUsed :: real

record BudgetUsage =
  bu_dailyTokens :: real
  bu_dailyCost :: real
  bu_monthlyTokens :: real
  bu_monthlyCost :: real
  dailyPercentage :: real
  monthlyPercentage :: real

record RouterMetrics =
  totalRequests :: real
  totalCost :: real
  totalTokens :: real
  providerMetrics :: "(string \<times> ProviderMetrics) list"
  budgetUsage :: BudgetUsage
  rateLimitHits :: real
  fallbackCount :: real

record Router =
  providers :: "(string \<times> Provider) list"
  routingConfig :: RoutingConfig
  limiter :: TokenLimiter
  metrics :: RouterMetrics
  initialized :: bool

record RoutingAttempt =
  att_provider :: string
  success :: bool
  att_duration :: real
  error :: "string option"

text \<open>\<open>RoutingDecision\<close> without its \<open>reasoning\<close> text, which formats numbers.\<close>

record RoutingDecision =
  selectedProvider :: string
  dec_strategy :: RoutingStrategy
  alternatives :: "string list"
  fallbackTriggered :: bool

record RoutingResult =
  res_provider :: string
  response :: ChatResponse
  routingDecision :: RoutingDecision
  attempts :: "RoutingAttempt list"
  res_totalCost :: real
  totalDuration :: real

text \<open>
  The exceptions of \<open>route\<close> and \<open>routeStream\<close>: the plain \<open>Error\<close> of an uninitialised
  router, \<open>BudgetExceededError\<close> (scope, usage, limit), \<open>RateLimitError\<close> (retry-after),
  \<open>RouterError\<close> with code NO_PROVIDERS, \<open>RouterError\<close> with code ALL_PROVIDERS_FAILED
  and its attempts, and the error of a provider thrown again when fallback is disabled.
\<close>

datatype RouterError =
    NotInitialized
  | BudgetExceeded BudgetType real "real option"
  | RateLimited "int option"
  | NoProviders
  | AllProvidersFailed "RoutingAttempt list"
  | ProviderError string

definition createEmptyProviderMetrics :: "string \<Rightarrow> ProviderMetrics" where
  "createEmptyProviderMetrics i =
     \<lparr>providerId = i, requestCount = 0, successCount = 0, failureCount = 0,
      pm_totalTokens = 0, pm_totalCost = 0, avgLatency = 0, lastUsed = 0\<rparr>"

definition createEmptyMetrics :: RouterMetrics where
  "createEmptyMetrics =
     \<lparr>totalRequests = 0, totalCost = 0, totalTokens = 0, providerMetrics = [],
      budgetUsage = \<lparr>bu_dailyTokens = 0, bu_dailyCost = 0, bu_monthlyTokens = 0,
                     bu_monthlyCost = 0, dailyPercentage = 0, monthlyPercentage = 0\<rparr>,
      rateLimitHits = 0, fallbackCount = 0\<rparr>"

definition new_Router :: "RoutingConfig \<Rightarrow> Router" where
  "new_Router c =
     \<lparr>providers = [], routingConfig = c,
      limiter = new_TokenLimiter (cfg_budgetLimits c) (cfg_rateLimits c),
      metrics = createEmptyMetrics, initialized = False\<rparr>"

definition registerProvider :: "Router \<Rightarrow> Provider \<Rightarrow> Router" where
  "registerProvider r provider =
     r\<lparr>providers := Map_set (pid provider) provider (providers r),
       metrics := (metrics r)\<lparr>providerMetrics :=
         Map_set (pid provider) (createEmptyProviderMetrics (pid provider))
           (providerMetrics (metrics r))\<rparr>\<rparr>"

definition initialize :: "Router \<Rightarrow> Router" where
  "initialize r = r\<lparr>initialized := True\<rparr>"

text \<open>\<open>getMetrics\<close> copies the record and the map; a value of HOL is its own copy.\<close>

definition getMetrics :: "Router \<Rightarrow> RouterMetrics" where
  "getMetrics r = (metrics r)\<lparr>providerMetrics := providerMetrics (metrics r)\<rparr>"

definition resetMetrics :: "Router \<Rightarrow> Router" where
  "resetMetrics r =
     r\<lparr>metrics := createEmptyMetrics\<lparr>providerMetrics :=
         fold (\<lambda>(i, provider) pms. Map_set i (createEmptyProviderMetrics i) pms)
           (providers r) (providerMetrics createEmptyMetrics)\<rparr>\<rparr>"

subsection \<open>Metrics aggregation\<close>

text \<open>
  \<open>updateMetrics\<close> as in part_004. The methods fetch the entry of the provider and
  assign to its fields; the model writes the changed entry back under its key.
\<close>

definition updateMetrics :: "Router \<Rightarrow> string \<Rightarrow> ChatResponse \<Rightarrow> real \<Rightarrow> real \<Rightarrow> Router" where
  "updateMetrics r i resp duration now =
     (case Map_get (providerMetrics (metrics r)) i of
        None \<Rightarrow> r
      | Some pm \<Rightarrow>
          let pm1 = pm\<lparr>requestCount := requestCount pm + 1,
                       successCount := successCount pm + 1,
                       pm_totalTokens := pm_totalTokens pm + tok_total (tokens resp),
                       pm_totalCost := pm_totalCost pm + cost resp,
                       lastUsed := now\<rparr>;
              totalLatency = avgLatency pm1 * (requestCount pm1 - 1) + duration;
              pm2 = pm1\<lparr>avgLatency := totalLatency / requestCount pm1\<rparr>;
              m = metrics r
          in r\<lparr>metrics := m\<lparr>providerMetrics := Map_set i pm2 (providerMetrics m),
                               totalRequests := totalRequests m + 1,
                               totalCost := totalCost m + cost resp,
                               totalTokens := totalTokens m + tok_total (tokens resp)\<rparr>\<rparr>)"

text \<open>
  The latency update of the second copy of the router:
  \<open>avgLatency = avgLatency + (duration - avgLatency) / requestCount\<close>, after the
  request count has been incremented.
\<close>

definition incrementalAverage :: "real \<Rightarrow> real \<Rightarrow> real \<Rightarrow> real" where
  "incrementalAverage avg duration cnt = avg + (duration - avg) / cnt"

definition updateFailureMetrics :: "Router \<Rightarrow> string \<Rightarrow> real \<Rightarrow> Router" where
  "updateFailureMetrics r i duration =
     (case Map_get (providerMetrics (metrics r)) i of
        None \<Rightarrow> r
      | Some pm \<Rightarrow>
          let pm1 = pm\<lparr>requestCount := requestCount pm + 1,
                       failureCount := failureCount pm + 1\<rparr>;
              m = metrics r
          in r\<lparr>metrics := m\<lparr>providerMetrics := Map_set i pm1 (providerMetrics m)\<rparr>\<rparr>)"

subsection \<open>Routing\<close>

definition selectProviders :: "Router \<Rightarrow> RouterError + string list" where
  "selectProviders r =
     (let available = availableProviders (providers r)
      in if length available = 0 then Inl NoProviders
         else Inr (case strategy (routingConfig r) of
                     Cost \<Rightarrow> sortByCost (providers r) available
                   | Speed \<Rightarrow> sortBySpeed (providers r) available
                   | Quality \<Rightarrow> sortByQuality (providers r) available
                   | Balanced \<Rightarrow> sortByBalanced (providers r) available
                   | Priority \<Rightarrow> sortByPriority (providers r) available
                   | Fallback \<Rightarrow> sortByPriority (providers r) available))"

definition createRoutingDecision :: "Router \<Rightarrow> string \<Rightarrow> string list \<Rightarrow> bool \<Rightarrow> RoutingDecision" where
  "createRoutingDecision r selected allProviders fb =
     \<lparr>selectedProvider = selected, dec_strategy = strategy (routingConfig r),
      alternatives = filter (\<lambda>p. p \<noteq> selected) allProviders,
      fallbackTriggered = fb\<rparr>"

text \<open>
  The loop \<open>for (const providerId of selectedProviders)\<close> of \<open>route\<close>, from the
  candidates still to try: \<open>clock\<close> is the reading of \<open>Date.now()\<close> when the iteration
  starts and \<open>atts\<close> the attempts pushed so far. The result is the value returned or
  the exception thrown, with the router as the call leaves it.
\<close>

fun routeLoop ::
  "Router \<Rightarrow> ChatRequest \<Rightarrow> string list \<Rightarrow> real \<Rightarrow> real \<Rightarrow> RoutingAttempt list \<Rightarrow> string list
     \<Rightarrow> (RouterError + RoutingResult) \<times> Router" where
  "routeLoop r request selectedProviders startTime clock atts [] =
     (Inl (AllProvidersFailed atts), r)"
| "routeLoop r request selectedProviders startTime clock atts (i # rest) =
     (case Map_get (providers r) i of
        None \<Rightarrow> routeLoop r request selectedProviders startTime clock atts rest
      | Some provider \<Rightarrow>
          (case chat provider request of
             (duration, Inr resp) \<Rightarrow>
               let atts1 = atts @ [\<lparr>att_provider = i, success = True, att_duration = duration,
                                     error = None\<rparr>];
                   r1 = updateMetrics r i resp duration (clock + duration);
                   r2 = r1\<lparr>limiter := recordUsage (limiter r1) (clock + duration) (tokens resp)\<rparr>;
                   fb = (length atts1 > 0);
                   decision = createRoutingDecision r2 i selectedProviders fb
               in (Inr \<lparr>res_provider = selectedProvider decision, response = resp,
                        routingDecision = decision, attempts = atts1,
                        res_totalCost = cost resp,
                        totalDuration = clock + duration - startTime\<rparr>, r2)
           | (duration, Inl msg) \<Rightarrow>
               let atts1 = atts @ [\<lparr>att_provider = i, success = False, att_duration = duration,
                                     error = Some msg\<rparr>];
                   r1 = updateFailureMetrics r i duration
               in if \<not> fallbackEnabled (routingConfig r1) then (Inl (ProviderError msg), r1)
                  else routeLoop r1 request selectedProviders startTime (clock + duration)
                         atts1 rest))"

definition route :: "Router \<Rightarrow> real \<Rightarrow> ChatRequest \<Rightarrow> (RouterError + RoutingResult) \<times> Router" where
  "route r now request =
     (if \<not> initialized r then (Inl NotInitialized, r)
      else
        let budgetCheck = checkBudget (limiter r) now request
        in if \<not> allowed budgetCheck then
             (Inl (BudgetExceeded (case budgetType budgetCheck of None \<Rightarrow> Daily | Some t \<Rightarrow> t)
                     (usage budgetCheck) (limit budgetCheck)), r)
           else
             let rateLimitCheck = checkRateLimits (limiter r) now
             in if \<not> rl_allowed rateLimitCheck then
                  (Inl (RateLimited (retryAfter rateLimitCheck)), r)
                else
                  (case selectProviders r of
                     Inl e \<Rightarrow> (Inl e, r)
                   | Inr selectedProviders \<Rightarrow>
                       routeLoop r request selectedProviders now now [] selectedProviders))"

text \<open>The loop of \<open>routeStream\<close>.\<close>

fun routeStreamLoop ::
  "Router \<Rightarrow> ChatRequest \<Rightarrow> string list \<Rightarrow> real \<Rightarrow> real \<Rightarrow> RoutingAttempt list \<Rightarrow> string list
     \<Rightarrow> (RouterError + RoutingResult) \<times> Router" where
  "routeStreamLoop r request selectedProviders startTime clock atts [] =
     (Inl (AllProvidersFailed atts), r)"
| "routeStreamLoop r request selectedProviders startTime clock atts (i # rest) =
     (case Map_get (providers r) i of
        None \<Rightarrow> routeStreamLoop r request selectedProviders startTime clock atts rest
      | Some provider \<Rightarrow>
          (case chatStream provider request of
             (duration, Inr resp) \<Rightarrow>
               let atts1 = atts @ [\<lparr>att_provider = i, success = True, att_duration = duration,
                                     error = None\<rparr>];
                   r1 = updateMetrics r i resp duration (clock + duration);
                   r2 = r1\<lparr>limiter := recordUsage (limiter r1) (clock + duration) (tokens resp)\<rparr>
               in (Inr \<lparr>res_provider = i, response = resp,
                        routingDecision = createRoutingDecision r2 i selectedProviders False,
                        attempts = atts1, res_totalCost = cost resp,
                        totalDuration = clock + duration - startTime\<rparr>, r2)
           | (duration, Inl msg) \<Rightarrow>
               let atts1 = atts @ [\<lparr>att_provider = i, success = False, att_duration = duration,
                                     error = Some msg\<rparr>]
               in if \<not> fallbackEnabled (routingConfig r) then (Inl (ProviderError msg), r)
                  else routeStreamLoop r request selectedProviders startTime (clock + duration)
                         atts1 rest))"

definition routeStream :: "Router \<Rightarrow> real \<Rightarrow> ChatRequest \<Rightarrow> (RouterError + RoutingResult) \<times> Router" where
  "routeStream r now request =
     (if \<not> initialized r then (Inl NotInitialized, r)
      else (case selectProviders r of
              Inl e \<Rightarrow> (Inl e, r)
            | Inr selectedProviders \<Rightarrow>
                routeStreamLoop r request selectedProviders now now [] selectedProviders))"

subsection \<open>Speculative candidate selection (second copy of the router)\<close>

datatype CandidateStrategy = CandSpeed | CandQuality | CandBalanced

text \<open>
  \<open>selectSpeculativeCandidates(providers, strategy, count)\<close>: sort a copy of the
  identifiers by the sub-strategy, then \<open>sorted.slice(0, Math.min(count, sorted.length))\<close>.
  The count is taken as an integer.
\<close>

definition selectSpeculativeCandidates ::
  "(string \<times> Provider) list \<Rightarrow> string list \<Rightarrow> CandidateStrategy \<Rightarrow> int \<Rightarrow> string list" where
  "selectSpeculativeCandidates ps ids s n =
     (let sortedIds = (case s of
                      CandSpeed \<Rightarrow> sortBySpeed ps ids
                    | CandQuality \<Rightarrow> sortByQuality ps ids
                    | CandBalanced \<Rightarrow> sortByBalanced ps ids)
      in Array_slice0 sortedIds (min n (int (length sortedIds))))"

text \<open>The sequential strategy that names the same ordering as a sub-strategy.\<close>

fun strategyOf :: "CandidateStrategy \<Rightarrow> RoutingStrategy" where
  "strategyOf CandSpeed = Speed"
| "strategyOf CandQuality = Quality"
| "strategyOf CandBalanced = Balanced"


subsection \<open>Definitions used to state the properties\<close>

text \<open>
  The key each sequential strategy orders by, in the words of the specification:
  cost by the declared cost per million tokens, speed by the declared latency, quality,
  priority and fallback by the declared priority rank, balanced by the score, descending.
\<close>

definition orderingKey :: "RoutingStrategy \<Rightarrow> ProviderConfig \<Rightarrow> real" where
  "orderingKey s c =
     (case s of
        Cost \<Rightarrow> costPerMillionTokens c
      | Speed \<Rightarrow> latency c
      | Quality \<Rightarrow> priority c
      | Balanced \<Rightarrow> - balancedScore c
      | Priority \<Rightarrow> priority c
      | Fallback \<Rightarrow> priority c)"

text \<open>The score as the specification writes it, in exact arithmetic.\<close>

definition exactScore :: "ProviderConfig \<Rightarrow> real" where
  "exactScore c = 0.4 * (1 - costPerMillionTokens c / 100)
                  + 0.3 * (1 - latency c / 10000)
                  + 0.2 * (1 - priority c / 100)
                  + 0.1 * availability c"

definition withStrategy :: "RoutingStrategy \<Rightarrow> Router \<Rightarrow> Router" where
  "withStrategy s r = r\<lparr>routingConfig := (routingConfig r)\<lparr>strategy := s\<rparr>\<rparr>"

text \<open>
  What selection reads of a provider: the enabled flag and the four declared fields
  of the balanced score; and the same for a whole provider map, key by key.
\<close>

definition descriptor :: "Provider \<Rightarrow> bool \<times> real \<times> real \<times> real \<times> real" where
  "descriptor p = (enabled (config p), costPerMillionTokens (config p), latency (config p),
                   priority (config p), availability (config p))"

definition descriptors ::
  "(string \<times> Provider) list \<Rightarrow> (string \<times> bool \<times> real \<times> real \<times> real \<times> real) list" where
  "descriptors ps = map (\<lambda>(i, p). (i, descriptor p)) ps"

subsection \<open>Test fixtures (tests/router.test.ts, tests/speculative.test.ts)\<close>

definition mockResponse :: "string \<Rightarrow> ChatResponse" where
  "mockResponse i =
     \<lparr>content = ''Mock response'', resp_provider = i,
      tokens = \<lparr>tok_input = 10, tok_output = 20, tok_total = 30\<rparr>,
      cost = 0.001, resp_duration = 100\<rparr>"

definition mockProvider :: "string \<Rightarrow> real \<Rightarrow> real \<Rightarrow> real \<Rightarrow> real \<Rightarrow> bool \<Rightarrow> Provider" where
  "mockProvider i prio cpm lat avail shouldFail =
     \<lparr>pid = i,
      config = \<lparr>cfg_id = i, enabled = True, priority = prio, costPerMillionTokens = cpm,
                latency = lat, availability = avail\<rparr>,
      chat = (\<lambda>request. if shouldFail then (0, Inl ''Provider failed'')
                         else (100, Inr (mockResponse i))),
      chatStream = (\<lambda>request. if shouldFail then (0, Inl ''Provider failed'')
                               else (100, Inr (mockResponse i)))\<rparr>"

definition provider1 :: Provider where
  "provider1 = mockProvider ''provider-1'' 10 0.15 500 0.99 False"

definition provider2 :: Provider where
  "provider2 = mockProvider ''provider-2'' 20 0.25 600 0.99 False"

definition provider3 :: Provider where
  "provider3 = mockProvider ''provider-3'' 30 0 2000 0.9 False"

definition testRouter :: "RoutingStrategy \<Rightarrow> BudgetLimits option \<Rightarrow> Router" where
  "testRouter s bl =
     initialize
       (registerProvider
         (registerProvider
           (registerProvider
             (new_Router \<lparr>strategy = s, fallbackEnabled = True, cfg_budgetLimits = bl,
                          cfg_rateLimits = None\<rparr>)
             provider1)
           provider2)
        provider3)"

definition testRequest :: ChatRequest where
  "testRequest = \<lparr>prompt = ''test'', messages = None, maxTokens = None\<rparr>"

definition tightBudget :: BudgetLimits where
  "tightBudget = \<lparr>dailyTokens = Some 100, dailyCost = Some 0, monthlyTokens = Some 0,
                   monthlyCost = Some 0\<rparr>"

definition zeroBudget :: BudgetLimits where
  "zeroBudget = \<lparr>dailyTokens = Some 0, dailyCost = None, monthlyTokens = Some 0,
                  monthlyCost = None\<rparr>"

text \<open>The three providers of the speculative tests, registered slowest first.\<close>

definition raceRouter :: Router where
  "raceRouter =
     initialize
       (registerProvider
         (registerProvider
           (registerProvider
             (new_Router \<lparr>strategy = Priority, fallbackEnabled = True,
                          cfg_budgetLimits = None, cfg_rateLimits = None\<rparr>)
             (mockProvider ''slow-provider'' 3 5 300 0.85 False))
           (mockProvider ''fast-provider'' 1 10 50 0.95 False))
        (mockProvider ''medium-provider'' 2 8 150 0.9 False))"

text \<open>
  Two providers whose declared fields are doubles: provider-a with priority 5 and
  latency \<open>200 - 2 powr (-45)\<close>, the double \<open>199.99999999999997\<close>, and provider-b with
  priority 8 and latency 0, both free and fully available; a router with the balanced
  strategy in which provider-a is registered first; and the same router after
  provider-a has been registered again with a failing adapter.
\<close>

definition providerA :: Provider where
  "providerA = mockProvider ''provider-a'' 5 0 (7036874417766399 / 35184372088832) 1 False"

definition providerB :: Provider where
  "providerB = mockProvider ''provider-b'' 8 0 0 1 False"

definition roundingRouter :: Router where
  "roundingRouter =
     initialize
       (registerProvider
          (registerProvider
             (new_Router \<lparr>strategy = Balanced, fallbackEnabled = True,
                          cfg_budgetLimits = None, cfg_rateLimits = None\<rparr>)
             providerA)
          providerB)"

definition roundingRouter' :: Router where
  "roundingRouter' =
     registerProvider roundingRouter
       (mockProvider ''provider-a'' 5 0 (7036874417766399 / 35184372088832) 1 True)"

text \<open>
  A provider that throws on the prompt \<open>bad\<close> and answers every other request in
  100 ms, alone in a router; and its metrics entry after a failed call of \<open>route\<close>
  followed by a successful one.
\<close>

definition flakyProvider :: Provider where
  "flakyProvider =
     \<lparr>pid = ''flaky'',
      config = \<lparr>cfg_id = ''flaky'', enabled = True, priority = 1, costPerMillionTokens = 1,
                latency = 100, availability = 0.5\<rparr>,
      chat = (\<lambda>request. if prompt request = ''bad'' then (5, Inl ''Provider failed'')
                         else (100, Inr (mockResponse ''flaky''))),
      chatStream = (\<lambda>request. if prompt request = ''bad'' then (5, Inl ''Provider failed'')
                               else (100, Inr (mockResponse ''flaky'')))\<rparr>"

definition flakyRouter :: Router where
  "flakyRouter =
     initialize
       (registerProvider
          (new_Router \<lparr>strategy = Priority, fallbackEnabled = True, cfg_budgetLimits = None,
                       cfg_rateLimits = None\<rparr>)
          flakyProvider)"

definition badRequest :: ChatRequest where
  "badRequest = \<lparr>prompt = ''bad'', messages = None, maxTokens = None\<rparr>"

definition flakyMetrics :: ProviderMetrics where
  "flakyMetrics =
     the (Map_get (providerMetrics (getMetrics
            (snd (route (snd (route flakyRouter 0 badRequest)) 1000 testRequest)))) ''flaky'')"

text \<open>
  The test router with a ceiling of one request per minute, after one successful
  call of \<open>route\<close> at time 0.
\<close>

definition rateLimitedRouter :: Router where
  "rateLimitedRouter =
     snd (route
       (initialize
          (registerProvider
             (new_Router \<lparr>strategy = Priority, fallbackEnabled = True, cfg_budgetLimits = None,
                          cfg_rateLimits = Some \<lparr>requestsPerMinute = Some 1,
                                                 tokensPerMinute = Some 0\<rparr>\<rparr>)
             provider1))
       0 testRequest)"

text \<open>The errors raised for the budget check and for the rate-limit check.\<close>

fun limiterError :: "RouterError \<Rightarrow> bool" where
  "limiterError (BudgetExceeded t u l) = True"
| "limiterError (RateLimited ra) = True"
| "limiterError e = False"

text \<open>The entries that \<open>resetMetrics\<close> writes for the registered providers into a map.\<close>

definition resetEntries ::
  "(string \<times> Provider) list \<Rightarrow> (string \<times> ProviderMetrics) list \<Rightarrow> (string \<times> ProviderMetrics) list" where
  "resetEntries ps m0 =
     fold (\<lambda>(i, provider) pms. Map_set i (createEmptyProviderMetrics i) pms) ps m0"

text \<open>The test router after one failed attempt against provider-1 has been recorded.\<close>

definition usedRouter :: Router where
  "usedRouter = updateFailureMetrics (testRouter Priority None) ''provider-1'' 5"

lemmas mock_defs = mockResponse_def mockProvider_def provider1_def provider2_def provider3_def
  testRouter_def testRequest_def initialize_def registerProvider_def new_Router_def
  new_TokenLimiter_def createEmptyMetrics_def createEmptyProviderMetrics_def
  tightBudget_def zeroBudget_def raceRouter_def withStrategy_def
  providerA_def providerB_def roundingRouter_def roundingRouter'_def
  usedRouter_def flakyProvider_def flakyRouter_def badRequest_def flakyMetrics_def
  rateLimitedRouter_def

lemmas select_defs = selectProviders_def availableProviders_def sortByCost_def sortBySpeed_def
  sortByQuality_def sortByPriority_def sortByBalanced_def balancedScore_def Array_sort_def
  configOf_def Map_get_def

lemmas float_defs = fadd_def fsub_def fmul_def fdiv_def

lemmas route_defs = route_def routeStream_def checkBudget_def checkRateLimits_def
  updateMetrics_def updateFailureMetrics_def recordUsage_def cleanupOldRecords_def
  createRoutingDecision_def estimateRequestTokens_def estimateTextTokens_def estimateCost_def
  calculateDailyUsage_def calculateMonthlyUsage_def usageSince_def exceeded_def reached_def

section \<open>Candidate selection\<close>

subsection \<open>The sort is the stable sort by the key\<close>

lemma sort_insert_key: "sort_insert (\<lambda>a b. k a - k b) x ys = insort_key k x ys"
  by (induction ys) auto

lemma Array_sort_key: "Array_sort (\<lambda>a b. k a - k b) xs = sort_key k xs"
  by (induction xs) (simp_all add: Array_sort_def sort_key_def sort_insert_key)

lemma sort_insert_desc: "sort_insert (\<lambda>a b. k b - k a) x ys = insort_key (\<lambda>a. - k a) x ys"
  by (induction ys) auto

lemma Array_sort_desc: "Array_sort (\<lambda>a b. k b - k a) xs = sort_key (\<lambda>a. - k a) xs"
  by (induction xs) (simp_all add: Array_sort_def sort_key_def sort_insert_desc)

lemma insort_key_map: "insort_key k (g x) (map g ys) = map g (insort_key (\<lambda>a. k (g a)) x ys)"
  by (induction ys) auto

lemma sort_key_map: "sort_key k (map g xs) = map g (sort_key (\<lambda>a. k (g a)) xs)"
  by (induction xs) (simp_all add: sort_key_def insort_key_map)

lemma sortByBalanced_key:
  "sortByBalanced ps ids = sort_key (\<lambda>i. - balancedScore (configOf ps i)) ids"
  by (simp add: sortByBalanced_def Array_sort_desc sort_key_map o_def)

lemma sortByCost_key: "sortByCost ps ids = sort_key (\<lambda>i. costPerMillionTokens (configOf ps i)) ids"
  by (simp add: sortByCost_def Array_sort_key)

lemma sortBySpeed_key: "sortBySpeed ps ids = sort_key (\<lambda>i. latency (configOf ps i)) ids"
  by (simp add: sortBySpeed_def Array_sort_key)

lemma sortByQuality_key: "sortByQuality ps ids = sort_key (\<lambda>i. priority (configOf ps i)) ids"
  by (simp add: sortByQuality_def Array_sort_key)

lemma sortByPriority_key: "sortByPriority ps ids = sort_key (\<lambda>i. priority (configOf ps i)) ids"
  by (simp add: sortByPriority_def Array_sort_key)

lemma selectProviders_key:
  "selectProviders r = Inr ids \<Longrightarrow>
     ids = sort_key (\<lambda>i. orderingKey (strategy (routingConfig r)) (configOf (providers r) i))
             (availableProviders (providers r))"
  by (auto simp: selectProviders_def Let_def orderingKey_def sortByCost_key sortBySpeed_key
      sortByQuality_key sortByPriority_key sortByBalanced_key
      split: if_splits RoutingStrategy.splits)

lemma selectProviders_nonempty:
  "selectProviders r = Inr ids \<Longrightarrow> availableProviders (providers r) \<noteq> []"
  by (simp add: selectProviders_def Let_def split: if_splits)

lemma selectProviders_Balanced:
  "strategy (routingConfig r) = Balanced \<Longrightarrow> availableProviders (providers r) \<noteq> [] \<Longrightarrow>
     selectProviders r = Inr (sortByBalanced (providers r) (availableProviders (providers r)))"
  by (simp add: selectProviders_def Let_def)

lemma selectProviders_withStrategy:
  "selectProviders (withStrategy s r) = Inr ord \<Longrightarrow>
     ord = (case s of
              Cost \<Rightarrow> sortByCost (providers r) (availableProviders (providers r))
            | Speed \<Rightarrow> sortBySpeed (providers r) (availableProviders (providers r))
            | Quality \<Rightarrow> sortByQuality (providers r) (availableProviders (providers r))
            | Balanced \<Rightarrow> sortByBalanced (providers r) (availableProviders (providers r))
            | Priority \<Rightarrow> sortByPriority (providers r) (availableProviders (providers r))
            | Fallback \<Rightarrow> sortByPriority (providers r) (availableProviders (providers r)))"
  by (cases s; simp add: selectProviders_def withStrategy_def Let_def split: if_splits)

subsection \<open>Sequential strategies\<close>

text \<open>
  C5. Whenever selection returns, the candidates are the enabled identifiers, each
  once, in non-decreasing order of the key of the configured strategy: the declared
  cost for cost, the declared latency for speed, the declared priority rank for
  quality, priority and fallback.
\<close>

theorem selectProviders_sorted:
  assumes "selectProviders r = Inr ids"
  shows "sorted (map (\<lambda>i. orderingKey (strategy (routingConfig r)) (configOf (providers r) i)) ids)
         \<and> mset ids = mset (availableProviders (providers r))"
  using selectProviders_key[OF assms] by (metis sorted_sort_key mset_sort)

theorem selectProviders_sorted_witness:
  "selectProviders (testRouter Cost None) = Inr [''provider-3'', ''provider-1'', ''provider-2'']
   \<and> sorted (map (\<lambda>i. orderingKey (strategy (routingConfig (testRouter Cost None)))
                        (configOf (providers (testRouter Cost None)) i))
               [''provider-3'', ''provider-1'', ''provider-2''])
   \<and> mset [''provider-3'', ''provider-1'', ''provider-2'']
       = mset (availableProviders (providers (testRouter Cost None)))"
proof -
  have h: "selectProviders (testRouter Cost None)
             = Inr [''provider-3'', ''provider-1'', ''provider-2'']"
    by (simp add: mock_defs select_defs)
  show ?thesis
    using h selectProviders_sorted[OF h] by (rule conjI)
qed


subsection \<open>The balanced strategy\<close>

text \<open>Evaluating the rounding of a positive \<open>x\<close> below 2, from its binary exponent \<open>-k\<close>.\<close>

lemma binary64_eval:
  fixes k :: nat
  assumes "k \<le> 1022" and "1 \<le> x * 2 ^ k" and "x * 2 ^ k < 2"
    and "roundTiesToEven (x * 2 ^ (52 + k)) = n"
  shows "binary64 x = of_int n / 2 ^ (52 + k)"
proof -
  have pos: "0 < x"
  proof (rule ccontr)
    assume "\<not> 0 < x"
    then have "x * 2 ^ k \<le> 0"
      by (simp add: mult_le_0_iff)
    with assms(2) show False by simp
  qed
  have p: "(2::real) powr (- real k) = 1 / 2 ^ k"
    by (simp add: powr_minus powr_realpow divide_simps)
  have lo: "2 powr (of_int (- int k)) \<le> x"
    using assms(2) by (simp add: p field_simps)
  have "x < 2 / 2 ^ k"
    using assms(3) by (simp add: field_simps)
  also have "\<dots> = 2 powr (of_int (- int k + 1))"
  proof -
    have a: "real_of_int (- int k + 1) = 1 + (- real k)"
      by simp
    have "(2::real) powr (1 + (- real k)) = 2 powr 1 * 2 powr (- real k)"
      by (rule powr_add)
    then show ?thesis
      unfolding a p by simp
  qed
  finally have hi: "x < 2 powr (of_int (- int k + 1))" .
  have fl: "\<lfloor>log 2 x\<rfloor> = - int k"
    using pos lo hi by (simp add: floor_log_eq_powr_iff)
  have e: "max \<lfloor>log 2 \<bar>x\<bar>\<rfloor> (- 1022) = - int k"
    using fl pos assms(1) by simp
  have u: "(2::real) powr (of_int (- int k - 52)) = 1 / 2 ^ (52 + k)"
  proof -
    have "real_of_int (- int k - 52) = - real (52 + k)"
      by simp
    then have "(2::real) powr (of_int (- int k - 52)) = 2 powr (- real (52 + k))"
      by (simp only:)
    also have "\<dots> = 1 / 2 ^ (52 + k)"
      by (simp only: powr_minus powr_realpow zero_less_numeral inverse_eq_divide)
    finally show ?thesis .
  qed
  show ?thesis
    using pos assms(4) unfolding binary64_def Let_def e u by simp
qed

lemma binary64_0: "binary64 0 = 0"
  by (simp add: binary64_def)

text \<open>The roundings met in the scores of provider-a and provider-b.\<close>

lemma round_1: "binary64 (2 / 5) = 3602879701896397 / 9007199254740992"
  by (rule binary64_eval[where k=2 and n=7205759403792794, THEN trans])
     (simp_all add: roundTiesToEven_def)

lemma round_2: "binary64 (3 / 10) = 5404319552844595 / 18014398509481984"
  by (rule binary64_eval[where k=2 and n=5404319552844595, THEN trans])
     (simp_all add: roundTiesToEven_def)

lemma round_3: "binary64 (1 / 5) = 3602879701896397 / 18014398509481984"
  by (rule binary64_eval[where k=3 and n=7205759403792794, THEN trans])
     (simp_all add: roundTiesToEven_def)

lemma round_4: "binary64 (1 / 10) = 3602879701896397 / 36028797018963968"
  by (rule binary64_eval[where k=4 and n=7205759403792794, THEN trans])
     (simp_all add: roundTiesToEven_def)

lemma round_5: "binary64 (1) = 1"
  by (rule binary64_eval[where k=0 and n=4503599627370496, THEN trans])
     (simp_all add: roundTiesToEven_def)

lemma round_6: "binary64 (7036874417766399 / 351843720888320000) = 2882303761517117 / 144115188075855872"
  by (rule binary64_eval[where k=6 and n=5764607523034234, THEN trans])
     (simp_all add: roundTiesToEven_def)

lemma round_7: "binary64 (141232884314338755 / 144115188075855872) = 2206763817411543 / 2251799813685248"
  by (rule binary64_eval[where k=1 and n=8827055269646172, THEN trans])
     (simp_all add: roundTiesToEven_def)

lemma round_8: "binary64 (1 / 20) = 3602879701896397 / 72057594037927936"
  by (rule binary64_eval[where k=5 and n=7205759403792794, THEN trans])
     (simp_all add: roundTiesToEven_def)

lemma round_9: "binary64 (68454714336031539 / 72057594037927936) = 4278419646001971 / 4503599627370496"
  by (rule binary64_eval[where k=1 and n=8556839292003942, THEN trans])
     (simp_all add: roundTiesToEven_def)

lemma round_10: "binary64 (3602879701896397 / 9007199254740992) = 3602879701896397 / 9007199254740992"
  by (rule binary64_eval[where k=2 and n=7205759403792794, THEN trans])
     (simp_all add: roundTiesToEven_def)

lemma round_11: "binary64 (11926056846947181551755438160085 / 40564819207303340847894502572032) = 5296233161787703 / 18014398509481984"
  by (rule binary64_eval[where k=2 and n=5296233161787703, THEN trans])
     (simp_all add: roundTiesToEven_def)

lemma round_12: "binary64 (12501992565580497 / 18014398509481984) = 781374535348781 / 1125899906842624"
  by (rule binary64_eval[where k=1 and n=6250996282790248, THEN trans])
     (simp_all add: roundTiesToEven_def)

lemma round_13: "binary64 (15414631298775269657307899798487 / 81129638414606681695789005144064) = 3422735716801577 / 18014398509481984"
  by (rule binary64_eval[where k=3 and n=6845471433603154, THEN trans])
     (simp_all add: roundTiesToEven_def)

lemma round_14: "binary64 (15924728282382073 / 18014398509481984) = 1990591035297759 / 2251799813685248"
  by (rule binary64_eval[where k=1 and n=7962364141191036, THEN trans])
     (simp_all add: roundTiesToEven_def)

lemma round_15: "binary64 (3602879701896397 / 36028797018963968) = 3602879701896397 / 36028797018963968"
  by (rule binary64_eval[where k=4 and n=7205759403792794, THEN trans])
     (simp_all add: roundTiesToEven_def)

lemma round_16: "binary64 (35452336266660541 / 36028797018963968) = 8863084066665135 / 9007199254740992"
  by (rule binary64_eval[where k=1 and n=8863084066665135, THEN trans])
     (simp_all add: roundTiesToEven_def)

lemma round_17: "binary64 (2 / 25) = 5764607523034235 / 72057594037927936"
  by (rule binary64_eval[where k=4 and n=5764607523034235, THEN trans])
     (simp_all add: roundTiesToEven_def)

lemma round_18: "binary64 (66292986514893701 / 72057594037927936) = 8286623314361713 / 9007199254740992"
  by (rule binary64_eval[where k=1 and n=8286623314361713, THEN trans])
     (simp_all add: roundTiesToEven_def)

lemma round_19: "binary64 (5404319552844595 / 18014398509481984) = 5404319552844595 / 18014398509481984"
  by (rule binary64_eval[where k=2 and n=5404319552844595, THEN trans])
     (simp_all add: roundTiesToEven_def)

lemma round_20: "binary64 (12610078956637389 / 18014398509481984) = 3152519739159347 / 4503599627370496"
  by (rule binary64_eval[where k=1 and n=6305039478318694, THEN trans])
     (simp_all add: roundTiesToEven_def)

lemma round_21: "binary64 (29855706936575261818411709448061 / 162259276829213363391578010288128) = 6629298651489371 / 36028797018963968"
  by (rule binary64_eval[where k=3 and n=6629298651489371, THEN trans])
     (simp_all add: roundTiesToEven_def)

lemma round_22: "binary64 (31849456564764147 / 36028797018963968) = 7962364141191037 / 9007199254740992"
  by (rule binary64_eval[where k=1 and n=7962364141191037, THEN trans])
     (simp_all add: roundTiesToEven_def)

lemma round_23: "binary64 (35452336266660545 / 36028797018963968) = 553942754166571 / 562949953421312"
  by (rule binary64_eval[where k=1 and n=8863084066665136, THEN trans])
     (simp_all add: roundTiesToEven_def)

lemmas round_steps = binary64_0 round_1 round_2 round_3 round_4 round_5 round_6 round_7 round_8 round_9 round_10 round_11 round_12 round_13 round_14 round_15 round_16 round_17 round_18 round_19 round_20 round_21 round_22 round_23

lemma balancedScore_rounded:
  "balancedScore c =
     fadd (fadd (fadd (fmul (fsub 1 (fdiv (costPerMillionTokens c) 100)) (binary64 0.4))
                      (fmul (fsub 1 (fdiv (latency c) 10000)) (binary64 0.3)))
                (fmul (fsub 1 (fdiv (priority c) 100)) (binary64 0.2)))
          (fmul (availability c) (binary64 0.1))"
  by (simp add: balancedScore_def Let_def)

lemma score_providerA: "balancedScore (config providerA) = 8863084066665135 / 9007199254740992"
  by (simp add: balancedScore_def providerA_def mockProvider_def Let_def float_defs round_steps)

lemma score_providerB: "balancedScore (config providerB) = 553942754166571 / 562949953421312"
  by (simp add: balancedScore_def providerB_def mockProvider_def Let_def float_defs round_steps)

lemma select_roundingRouter:
  "selectProviders roundingRouter = Inr [''provider-b'', ''provider-a'']"
  by (simp add: mock_defs select_defs Let_def float_defs round_steps)

lemma sortByBalanced_descending:
  "sorted_wrt (\<lambda>a b. a \<ge> b) (map (\<lambda>i. balancedScore (configOf ps i)) (sortByBalanced ps ids))"
proof -
  have "sorted (map (\<lambda>i. - balancedScore (configOf ps i)) (sortByBalanced ps ids))"
    unfolding sortByBalanced_key by (rule sorted_sort_key)
  then show ?thesis
    by (simp add: sorted_wrt_map)
qed

lemma balancedScore_descriptor:
  "snd (descriptor p) = snd (descriptor q) \<Longrightarrow> balancedScore (config p) = balancedScore (config q)"
  by (simp add: descriptor_def balancedScore_def)

lemma availableProviders_descriptors:
  "availableProviders ps = map fst (filter (\<lambda>(i, d). fst d) (descriptors ps))"
  by (induction ps)
     (simp_all add: availableProviders_def descriptors_def descriptor_def split: prod.splits)

lemma map_of_descriptors: "map_of (descriptors ps) i = map_option descriptor (map_of ps i)"
  by (induction ps) (auto simp: descriptors_def)

lemma availableProviders_keys:
  assumes "i \<in> set (availableProviders ps)"
  shows "\<exists>p. map_of ps i = Some p"
proof -
  from assms have "i \<in> fst ` set ps"
    by (auto simp: availableProviders_def)
  then show ?thesis
    by (metis map_of_eq_None_iff not_Some_eq)
qed

lemma score_descriptors:
  assumes "descriptors ps' = descriptors ps" and "i \<in> set (availableProviders ps)"
  shows "balancedScore (configOf ps' i) = balancedScore (configOf ps i)"
proof -
  from assms(2) obtain p where p: "map_of ps i = Some p"
    using availableProviders_keys by blast
  have "map_of (descriptors ps') i = map_of (descriptors ps) i"
    by (simp only: assms(1))
  then have "map_option descriptor (map_of ps' i) = Some (descriptor p)"
    by (simp only: map_of_descriptors p option.map)
  then obtain q where q: "map_of ps' i = Some q" and d: "descriptor q = descriptor p"
    by (cases "map_of ps' i") simp_all
  have "balancedScore (config q) = balancedScore (config p)"
    by (rule balancedScore_descriptor) (simp only: d)
  then show ?thesis
    by (simp only: configOf_def Map_get_def p q option.sel)
qed

lemma insort_key_cong_set:
  "f a = g a \<Longrightarrow> \<forall>x \<in> set ys. f x = g x \<Longrightarrow> insort_key f a ys = insort_key g a ys"
  by (induction ys) simp_all

lemma sort_key_cong_set: "\<forall>x \<in> set xs. f x = g x \<Longrightarrow> sort_key f xs = sort_key g xs"
proof (induction xs)
  case Nil
  then show ?case by simp
next
  case (Cons a xs)
  then have eq: "sort_key f xs = sort_key g xs" by simp
  have "insort_key f a (sort_key g xs) = insort_key g a (sort_key g xs)"
    using Cons.prems by (intro insort_key_cong_set) simp_all
  with eq show ?case by (simp add: sort_key_def)
qed

lemma sortByBalanced_descriptors:
  assumes "descriptors ps' = descriptors ps"
  shows "sortByBalanced ps' (availableProviders ps) = sortByBalanced ps (availableProviders ps)"
  unfolding sortByBalanced_key
  by (rule sort_key_cong_set) (simp add: score_descriptors[OF assms])

text \<open>
  C6, as the code has it. The score of the balanced strategy is
  0.4 (1 - cost/100) + 0.3 (1 - latency/10000) + 0.2 (1 - priorityRank/100)
  + 0.1 availability evaluated in binary64 arithmetic, every constant and every
  operation rounded; the candidates selected are the enabled identifiers in
  descending order of that computed score; and a router whose providers have the same
  identifiers, enabled flags and four declared fields selects the same order,
  whatever else differs.
\<close>

theorem balanced_selection:
  assumes "strategy (routingConfig r) = Balanced"
      and "selectProviders r = Inr ids"
      and "strategy (routingConfig r') = Balanced"
      and "descriptors (providers r') = descriptors (providers r)"
  shows "balancedScore c =
           fadd (fadd (fadd (fmul (fsub 1 (fdiv (costPerMillionTokens c) 100)) (binary64 0.4))
                            (fmul (fsub 1 (fdiv (latency c) 10000)) (binary64 0.3)))
                      (fmul (fsub 1 (fdiv (priority c) 100)) (binary64 0.2)))
                (fmul (availability c) (binary64 0.1))
         \<and> sorted_wrt (\<lambda>a b. a \<ge> b) (map (\<lambda>i. balancedScore (configOf (providers r) i)) ids)
         \<and> mset ids = mset (availableProviders (providers r))
         \<and> selectProviders r' = Inr ids"
proof -
  have ne: "availableProviders (providers r) \<noteq> []"
    using assms(2) by (rule selectProviders_nonempty)
  have "Inr ids = Inr (sortByBalanced (providers r) (availableProviders (providers r)))"
    using selectProviders_Balanced[OF assms(1) ne] assms(2) by simp
  then have ids: "ids = sortByBalanced (providers r) (availableProviders (providers r))"
    by simp
  have desc: "sorted_wrt (\<lambda>a b. a \<ge> b) (map (\<lambda>i. balancedScore (configOf (providers r) i)) ids)"
    unfolding ids by (rule sortByBalanced_descending)
  have perm: "mset ids = mset (availableProviders (providers r))"
    unfolding ids sortByBalanced_key by (rule mset_sort)
  have av: "availableProviders (providers r') = availableProviders (providers r)"
    by (simp only: availableProviders_descriptors assms(4))
  have "selectProviders r' = Inr (sortByBalanced (providers r') (availableProviders (providers r')))"
    using assms(3) ne av by (intro selectProviders_Balanced) simp_all
  then have det: "selectProviders r' = Inr ids"
    by (simp only: av ids sortByBalanced_descriptors[OF assms(4)])
  show ?thesis
    using balancedScore_rounded desc perm det by (intro conjI)
qed

theorem balanced_selection_witness:
  "(strategy (routingConfig roundingRouter) = Balanced
    \<and> selectProviders roundingRouter = Inr [''provider-b'', ''provider-a'']
    \<and> strategy (routingConfig roundingRouter') = Balanced
    \<and> descriptors (providers roundingRouter') = descriptors (providers roundingRouter))
   \<and> (balancedScore (config providerA) =
         fadd (fadd (fadd (fmul (fsub 1 (fdiv (costPerMillionTokens (config providerA)) 100))
                                (binary64 0.4))
                          (fmul (fsub 1 (fdiv (latency (config providerA)) 10000))
                                (binary64 0.3)))
                    (fmul (fsub 1 (fdiv (priority (config providerA)) 100)) (binary64 0.2)))
              (fmul (availability (config providerA)) (binary64 0.1))
       \<and> sorted_wrt (\<lambda>a b. a \<ge> b)
            (map (\<lambda>i. balancedScore (configOf (providers roundingRouter) i))
               [''provider-b'', ''provider-a''])
       \<and> mset [''provider-b'', ''provider-a'']
           = mset (availableProviders (providers roundingRouter))
       \<and> selectProviders roundingRouter' = Inr [''provider-b'', ''provider-a''])"
proof -
  have h1: "strategy (routingConfig roundingRouter) = Balanced"
    by (simp add: mock_defs)
  note h2 = select_roundingRouter
  have h3: "strategy (routingConfig roundingRouter') = Balanced"
    by (simp add: mock_defs)
  have h4: "descriptors (providers roundingRouter') = descriptors (providers roundingRouter)"
    by (simp add: mock_defs descriptors_def descriptor_def)
  have hyps:
    "strategy (routingConfig roundingRouter) = Balanced
     \<and> selectProviders roundingRouter = Inr [''provider-b'', ''provider-a'']
     \<and> strategy (routingConfig roundingRouter') = Balanced
     \<and> descriptors (providers roundingRouter') = descriptors (providers roundingRouter)"
    using h1 h2 h3 h4 by (intro conjI)
  show ?thesis
    using hyps balanced_selection[OF h1 h2 h3 h4, of "config providerA"]
    by (rule conjI)
qed

text \<open>
  C6, as stated, fails. With provider-a registered before provider-b, selection
  returns provider-b first: the computed scores are \<open>0.984\<close> for provider-b and
  \<open>0.9839999999999999\<close> for provider-a. The score of the formula in exact arithmetic
  is larger for provider-a, so the order returned is not descending by it, and the
  computed score of provider-a is not the value of the formula.
\<close>

theorem balanced_selection_counterexample:
  "selectProviders roundingRouter = Inr [''provider-b'', ''provider-a'']
   \<and> exactScore (configOf (providers roundingRouter) ''provider-b'')
       < exactScore (configOf (providers roundingRouter) ''provider-a'')
   \<and> balancedScore (configOf (providers roundingRouter) ''provider-a'')
       < exactScore (configOf (providers roundingRouter) ''provider-a'')"
proof -
  have a: "configOf (providers roundingRouter) ''provider-a'' = config providerA"
    by (simp add: mock_defs configOf_def Map_get_def)
  have b: "configOf (providers roundingRouter) ''provider-b'' = config providerB"
    by (simp add: mock_defs configOf_def Map_get_def)
  have exact: "exactScore (config providerB) < exactScore (config providerA)"
    by (simp add: exactScore_def providerA_def providerB_def mockProvider_def)
  have computed: "balancedScore (config providerA) < exactScore (config providerA)"
    unfolding score_providerA
    by (simp add: exactScore_def providerA_def mockProvider_def)
  show ?thesis
    unfolding a b using select_roundingRouter exact computed by (intro conjI)
qed

subsection \<open>Speculative candidates\<close>

lemma Array_slice0_take:
  "0 \<le> n \<Longrightarrow> Array_slice0 xs (min n (int (length xs))) = take (nat n) xs"
  by (auto simp: Array_slice0_def Let_def min_def)

text \<open>
  C3. In the second copy of the router, \<open>route\<close> under the speculative strategy passes
  the enabled identifiers, in map order, to \<open>selectSpeculativeCandidates\<close> with the
  sub-strategy \<open>s\<close> and the candidate count \<open>n\<close>. For a count that is not negative the
  candidates are the first \<open>n\<close> identifiers of the order that selection produces under
  the strategy \<open>s\<close> itself, and all of them when fewer than \<open>n\<close> are enabled.
\<close>

theorem selectSpeculativeCandidates_take:
  assumes "0 \<le> n" and "selectProviders (withStrategy (strategyOf s) r) = Inr ord"
  shows "selectSpeculativeCandidates (providers r) (availableProviders (providers r)) s n
           = take (nat n) ord"
  using assms(1) selectProviders_withStrategy[OF assms(2)]
  by (cases s) (simp_all add: selectSpeculativeCandidates_def Let_def Array_slice0_take)

theorem selectSpeculativeCandidates_take_witness:
  "((0::int) \<le> 2
    \<and> selectProviders (withStrategy (strategyOf CandSpeed) raceRouter)
        = Inr [''fast-provider'', ''medium-provider'', ''slow-provider''])
   \<and> selectSpeculativeCandidates (providers raceRouter)
         (availableProviders (providers raceRouter)) CandSpeed 2
       = take (nat 2) [''fast-provider'', ''medium-provider'', ''slow-provider'']"
proof -
  have h1: "(0::int) \<le> 2"
    by simp
  have h2: "selectProviders (withStrategy (strategyOf CandSpeed) raceRouter)
              = Inr [''fast-provider'', ''medium-provider'', ''slow-provider'']"
    by (simp add: mock_defs select_defs)
  show ?thesis
    using conjI[OF h1 h2] selectSpeculativeCandidates_take[OF h1 h2] by (rule conjI)
qed


section \<open>Metrics\<close>

subsection \<open>Map.set\<close>

lemma map_of_Map_set: "map_of (Map_set k v m) = (map_of m)(k \<mapsto> v)"
  by (induction m) (auto simp: fun_eq_iff)

lemma Map_get_Map_set: "Map_get (Map_set k v m) k' = (if k' = k then Some v else Map_get m k')"
  by (simp add: Map_get_def map_of_Map_set)

lemma keys_Map_set: "fst ` set (Map_set k v m) = insert k (fst ` set m)"
  by (simp add: dom_map_of_conv_image_fst[symmetric] map_of_Map_set)

lemma distinct_Map_set: "distinct (map fst m) \<Longrightarrow> distinct (map fst (Map_set k v m))"
  by (induction m) (auto simp: keys_Map_set)

lemma Map_set_nonempty: "Map_set k v m \<noteq> []"
  by (cases m) (auto split: if_splits)


subsection \<open>Registering a provider\<close>

text \<open>
  C10. \<open>registerProvider(p)\<close> leaves the metrics entry of \<open>p.id\<close> all zero, whatever it
  held before, and the entry of every other identifier as it was.
\<close>

theorem registerProvider_metrics:
  "Map_get (providerMetrics (metrics (registerProvider r p))) (pid p)
     = Some (createEmptyProviderMetrics (pid p))
   \<and> (k \<noteq> pid p \<longrightarrow>
        Map_get (providerMetrics (metrics (registerProvider r p))) k
          = Map_get (providerMetrics (metrics r)) k)"
  by (simp add: registerProvider_def Map_get_Map_set)


theorem registerProvider_metrics_witness:
  "''provider-2'' \<noteq> pid provider1
   \<and> requestCount (the (Map_get (providerMetrics (metrics usedRouter)) ''provider-1'')) = 1
   \<and> Map_get (providerMetrics (metrics (registerProvider usedRouter provider1))) (pid provider1)
       = Some (createEmptyProviderMetrics (pid provider1))
   \<and> Map_get (providerMetrics (metrics (registerProvider usedRouter provider1))) ''provider-2''
       = Map_get (providerMetrics (metrics usedRouter)) ''provider-2''"
proof -
  have h: "''provider-2'' \<noteq> pid provider1"
    by (simp add: mock_defs)
  have used: "requestCount (the (Map_get (providerMetrics (metrics usedRouter)) ''provider-1'')) = 1"
    by (simp add: mock_defs updateFailureMetrics_def Map_get_def)
  note zeroed = registerProvider_metrics[of usedRouter provider1 "''provider-2''", THEN conjunct1]
  note kept = registerProvider_metrics[of usedRouter provider1 "''provider-2''",
                THEN conjunct2, THEN mp, OF h]
  show ?thesis
    using conjI[OF h conjI[OF used conjI[OF zeroed kept]]] .
qed

subsection \<open>Resetting the metrics\<close>

lemma resetEntries_Nil: "resetEntries [] m0 = m0"
  by (simp add: resetEntries_def)

lemma resetEntries_Cons:
  "resetEntries ((i, p) # ps) m0 = resetEntries ps (Map_set i (createEmptyProviderMetrics i) m0)"
  by (simp add: resetEntries_def)

lemma resetEntries_lookup:
  "map_of (resetEntries ps m0) j
     = (if j \<in> fst ` set ps then Some (createEmptyProviderMetrics j) else map_of m0 j)"
proof (induction ps arbitrary: m0)
  case Nil
  show ?case by (simp add: resetEntries_Nil)
next
  case (Cons x ps)
  obtain i p where x: "x = (i, p)" by (cases x)
  show ?case
    unfolding x resetEntries_Cons Cons.IH by (simp add: map_of_Map_set)
qed

lemma resetEntries_distinct:
  "distinct (map fst m0) \<Longrightarrow> distinct (map fst (resetEntries ps m0))"
proof (induction ps arbitrary: m0)
  case Nil
  then show ?case by (simp add: resetEntries_Nil)
next
  case (Cons x ps)
  obtain i p where x: "x = (i, p)" by (cases x)
  show ?case
    unfolding x resetEntries_Cons by (rule Cons.IH) (rule distinct_Map_set[OF Cons.prems])
qed

lemma resetEntries_nonempty: "m0 \<noteq> [] \<Longrightarrow> resetEntries ps m0 \<noteq> []"
proof (induction ps arbitrary: m0)
  case Nil
  then show ?case by (simp add: resetEntries_Nil)
next
  case (Cons x ps)
  obtain i p where x: "x = (i, p)" by (cases x)
  show ?case
    unfolding x resetEntries_Cons by (rule Cons.IH) (rule Map_set_nonempty)
qed

lemma resetEntries_empty: "(resetEntries ps [] = []) = (ps = [])"
proof (cases ps)
  case Nil
  then show ?thesis by (simp add: resetEntries_Nil)
next
  case (Cons x xs)
  obtain i p where x: "x = (i, p)" by (cases x)
  have "resetEntries ps [] \<noteq> []"
    unfolding Cons x resetEntries_Cons by (rule resetEntries_nonempty) (rule Map_set_nonempty)
  then show ?thesis
    using Cons by simp
qed

lemma metrics_reset:
  "getMetrics (resetMetrics r)
     = createEmptyMetrics\<lparr>providerMetrics := resetEntries (providers r) []\<rparr>"
  by (simp add: getMetrics_def resetMetrics_def resetEntries_def createEmptyMetrics_def)


text \<open>
  C9, as the code has it. After \<open>resetMetrics()\<close>, \<open>getMetrics()\<close> returns global
  counters that are all zero and a per-endpoint map that holds one all-zero entry for
  each registered provider and nothing else; the map is empty only when no provider is
  registered.
\<close>

theorem resetMetrics_getMetrics:
  "totalRequests (getMetrics (resetMetrics r)) = 0
   \<and> totalCost (getMetrics (resetMetrics r)) = 0
   \<and> totalTokens (getMetrics (resetMetrics r)) = 0
   \<and> rateLimitHits (getMetrics (resetMetrics r)) = 0
   \<and> fallbackCount (getMetrics (resetMetrics r)) = 0
   \<and> budgetUsage (getMetrics (resetMetrics r))
       = \<lparr>bu_dailyTokens = 0, bu_dailyCost = 0, bu_monthlyTokens = 0, bu_monthlyCost = 0,
          dailyPercentage = 0, monthlyPercentage = 0\<rparr>
   \<and> Map_get (providerMetrics (getMetrics (resetMetrics r))) i
       = (if i \<in> fst ` set (providers r) then Some (createEmptyProviderMetrics i) else None)
   \<and> distinct (map fst (providerMetrics (getMetrics (resetMetrics r))))
   \<and> (providerMetrics (getMetrics (resetMetrics r)) = []) = (providers r = [])"
  unfolding metrics_reset
  by (simp add: createEmptyMetrics_def Map_get_def resetEntries_lookup resetEntries_distinct
        resetEntries_empty)


text \<open>
  C9, as stated, fails: with the three test providers registered, the per-endpoint
  map returned after a reset is not empty.
\<close>

theorem resetMetrics_getMetrics_counterexample:
  "providerMetrics (getMetrics (resetMetrics (testRouter Balanced None))) \<noteq> []"
  by (simp add: mock_defs getMetrics_def resetMetrics_def)


section \<open>Usage limiter\<close>

lemma exceeded_positive: "exceeded u c \<Longrightarrow> \<exists>v. c = Some v \<and> 0 < v \<and> v < u"
  by (cases c) (simp_all add: exceeded_def)

lemma exceeded_zero: "c \<in> {None, Some 0} \<Longrightarrow> \<not> exceeded u c"
  by (auto simp: exceeded_def)

lemma checkBudget_None: "budgetLimits l = None \<Longrightarrow> allowed (checkBudget l now request)"
  by (simp add: checkBudget_def)

lemma checkBudget_rejected:
  assumes "\<not> allowed (checkBudget l now request)"
  shows "\<exists>bl v. budgetLimits l = Some bl
           \<and> limit (checkBudget l now request) = Some v
           \<and> Some v \<in> {dailyTokens bl, dailyCost bl, monthlyTokens bl, monthlyCost bl}
           \<and> 0 < v \<and> v < usage (checkBudget l now request)"
proof (cases "budgetLimits l")
  case None
  then show ?thesis using assms by (simp add: checkBudget_def)
next
  case (Some bl)
  show ?thesis
    using assms unfolding checkBudget_def Some Let_def option.case
    by (auto split: if_splits dest!: exceeded_positive)
qed

lemma checkBudget_zero:
  assumes "budgetLimits l = Some bl"
    and "dailyTokens bl \<in> {None, Some 0}" and "dailyCost bl \<in> {None, Some 0}"
    and "monthlyTokens bl \<in> {None, Some 0}" and "monthlyCost bl \<in> {None, Some 0}"
  shows "allowed (checkBudget l now request)"
  unfolding checkBudget_def assms(1) Let_def option.case
  by (simp add: exceeded_zero[OF assms(2)] exceeded_zero[OF assms(3)]
        exceeded_zero[OF assms(4)] exceeded_zero[OF assms(5)])


text \<open>
  C8. \<open>checkBudget\<close> allows every request when no budget configuration was supplied;
  when it does not allow a request, the ceiling it reports as exceeded is one of the
  four configured ceilings and is positive, so a ceiling of zero is never the cause;
  and it allows every request when each of the four ceilings is absent or zero.
\<close>

theorem checkBudget_unlimited:
  "(budgetLimits l = None \<longrightarrow> allowed (checkBudget l now request))
   \<and> (\<not> allowed (checkBudget l now request) \<longrightarrow>
        (\<exists>bl v. budgetLimits l = Some bl
           \<and> limit (checkBudget l now request) = Some v
           \<and> Some v \<in> {dailyTokens bl, dailyCost bl, monthlyTokens bl, monthlyCost bl}
           \<and> 0 < v \<and> v < usage (checkBudget l now request)))
   \<and> (budgetLimits l = Some bl'
        \<and> dailyTokens bl' \<in> {None, Some 0} \<and> dailyCost bl' \<in> {None, Some 0}
        \<and> monthlyTokens bl' \<in> {None, Some 0} \<and> monthlyCost bl' \<in> {None, Some 0}
        \<longrightarrow> allowed (checkBudget l now request))"
  using checkBudget_None[of l now request] checkBudget_rejected[of l now request]
    checkBudget_zero[of l bl' now request]
  by blast

theorem checkBudget_unlimited_witness:
  "(budgetLimits (new_TokenLimiter None None) = None
      \<and> allowed (checkBudget (new_TokenLimiter None None) 0 testRequest))
   \<and> (\<not> allowed (checkBudget (new_TokenLimiter (Some tightBudget) None) 0 testRequest)
      \<and> (\<exists>bl v. budgetLimits (new_TokenLimiter (Some tightBudget) None) = Some bl
           \<and> limit (checkBudget (new_TokenLimiter (Some tightBudget) None) 0 testRequest) = Some v
           \<and> Some v \<in> {dailyTokens bl, dailyCost bl, monthlyTokens bl, monthlyCost bl}
           \<and> 0 < v
           \<and> v < usage (checkBudget (new_TokenLimiter (Some tightBudget) None) 0 testRequest)))
   \<and> ((budgetLimits (new_TokenLimiter (Some zeroBudget) None) = Some zeroBudget
        \<and> dailyTokens zeroBudget \<in> {None, Some 0} \<and> dailyCost zeroBudget \<in> {None, Some 0}
        \<and> monthlyTokens zeroBudget \<in> {None, Some 0} \<and> monthlyCost zeroBudget \<in> {None, Some 0})
      \<and> allowed (checkBudget (new_TokenLimiter (Some zeroBudget) None) 0 testRequest))"
proof -
  have a: "budgetLimits (new_TokenLimiter None None) = None"
    by (simp add: new_TokenLimiter_def)
  have b: "\<not> allowed (checkBudget (new_TokenLimiter (Some tightBudget) None) 0 testRequest)"
    by (simp add: mock_defs route_defs Let_def)
  have c: "budgetLimits (new_TokenLimiter (Some zeroBudget) None) = Some zeroBudget
        \<and> dailyTokens zeroBudget \<in> {None, Some 0} \<and> dailyCost zeroBudget \<in> {None, Some 0}
        \<and> monthlyTokens zeroBudget \<in> {None, Some 0} \<and> monthlyCost zeroBudget \<in> {None, Some 0}"
    by (simp add: new_TokenLimiter_def zeroBudget_def)
  note t1 = checkBudget_unlimited[of "new_TokenLimiter None None" 0 testRequest,
              THEN conjunct1, THEN mp, OF a]
  note t2 = checkBudget_unlimited[of "new_TokenLimiter (Some tightBudget) None" 0 testRequest,
              THEN conjunct2, THEN conjunct1, THEN mp, OF b]
  note t3 = checkBudget_unlimited[of "new_TokenLimiter (Some zeroBudget) None" 0 testRequest
              zeroBudget, THEN conjunct2, THEN conjunct2, THEN mp, OF c]
  show ?thesis
    using conjI[OF conjI[OF a t1] conjI[OF conjI[OF b t2] conjI[OF c t3]]] .
qed

section \<open>Running-average latency\<close>

text \<open>
  On a positive request count the latency update of part_004 and the incremental
  update of the second copy compute the same value.
\<close>

lemma latency_update_forms:
  "cnt \<noteq> 0 \<Longrightarrow> (avg * (cnt - 1) + d) / cnt = incrementalAverage avg d cnt"
  by (simp add: incrementalAverage_def field_simps)


text \<open>
  C7, where the code departs from it. Both copies of \<open>updateMetrics\<close> divide by
  \<open>requestCount\<close>, which \<open>updateFailureMetrics\<close> increments too. For the provider
  \<open>flaky\<close>, one failed call of \<open>route\<close> followed by one successful call that takes
  100 ms leaves request count 2, success count 1 and an average latency of 50, not
  the 100 that the average over the successful requests is; the incremental form gives
  the same 50.
\<close>

theorem avgLatency_diluted_by_failure:
  "fst (route flakyRouter 0 badRequest)
     = Inl (AllProvidersFailed [\<lparr>att_provider = ''flaky'', success = False, att_duration = 5,
                                 error = Some ''Provider failed''\<rparr>])
   \<and> requestCount flakyMetrics = 2 \<and> successCount flakyMetrics = 1
   \<and> failureCount flakyMetrics = 1
   \<and> avgLatency flakyMetrics = 50
   \<and> incrementalAverage 0 100 (requestCount flakyMetrics) = 50"
  by (simp add: mock_defs
        select_defs route_defs getMetrics_def incrementalAverage_def Let_def)


section \<open>Routing\<close>

text \<open>
  C1, where the code departs from it. \<open>route\<close> computes the flag as
  \<open>attempts.length > 0\<close> after it has pushed the successful attempt. With the three test
  providers and the priority strategy the first candidate succeeds, no attempt has
  failed, and the flag of the decision is true.
\<close>

theorem route_first_success_fallbackTriggered:
  "(case fst (route (testRouter Priority None) 0 testRequest) of
      Inl e \<Rightarrow> False
    | Inr res \<Rightarrow> selectedProvider (routingDecision res) = ''provider-1''
                 \<and> map success (attempts res) = [True]
                 \<and> fallbackTriggered (routingDecision res))"
  by (simp add: mock_defs select_defs route_defs Let_def)


text \<open>The flag is true in every result that \<open>route\<close> returns.\<close>

lemma routeLoop_fallbackTriggered:
  "routeLoop r request sel start clock atts rest = (Inr res, r')
     \<Longrightarrow> fallbackTriggered (routingDecision res)"
proof (induction rest arbitrary: r clock atts)
  case Nil
  then show ?case by simp
next
  case (Cons i rest)
  show ?case
  proof (cases "Map_get (providers r) i")
    case None
    then show ?thesis using Cons by simp
  next
    case (Some provider)
    obtain duration outcome where c: "chat provider request = (duration, outcome)"
      by (cases "chat provider request")
    show ?thesis
    proof (cases outcome)
      case (Inl msg)
      then show ?thesis
        using Cons.prems Cons.IH Some c by (simp add: Let_def split: if_splits)
    next
      case (Inr resp)
      then show ?thesis
        using Cons.prems Some c by (clarsimp simp: Let_def createRoutingDecision_def)
    qed
  qed
qed

lemma route_fallbackTriggered:
  "route r now request = (Inr res, r') \<Longrightarrow> fallbackTriggered (routingDecision res)"
  by (simp add: route_def Let_def split: if_splits sum.splits)
     (rule routeLoop_fallbackTriggered)

text \<open>
  C2, where the code departs from it. \<open>routeStream\<close> calls neither \<open>checkBudget\<close> nor
  \<open>checkRateLimits\<close>. Under a daily ceiling of 100 tokens \<open>route\<close> throws
  \<open>BudgetExceededError\<close> for the test request and \<open>routeStream\<close> calls provider-1 and
  returns its response; under a ceiling of one request per minute, after one request,
  \<open>route\<close> throws \<open>RateLimitError\<close> and \<open>routeStream\<close> again returns a response.
\<close>

theorem routeStream_skips_limiter:
  "fst (route (testRouter Priority (Some tightBudget)) 0 testRequest)
     = Inl (BudgetExceeded Daily 501 (Some 100))
   \<and> (case fst (routeStream (testRouter Priority (Some tightBudget)) 0 testRequest) of
        Inl e \<Rightarrow> False
      | Inr res \<Rightarrow> res_provider res = ''provider-1'' \<and> map success (attempts res) = [True])
   \<and> fst (route rateLimitedRouter 1000 testRequest) = Inl (RateLimited (Some 60))
   \<and> (case fst (routeStream rateLimitedRouter 1000 testRequest) of
        Inl e \<Rightarrow> False
      | Inr res \<Rightarrow> res_provider res = ''provider-1'' \<and> map success (attempts res) = [True])"
  by (simp add: mock_defs select_defs route_defs Let_def)

text \<open>No exception of \<open>routeStream\<close> is a budget error or a rate-limit error.\<close>

lemma routeStreamLoop_no_limiterError:
  "routeStreamLoop r request sel start clock atts rest = (Inl e, r') \<Longrightarrow> \<not> limiterError e"
proof (induction rest arbitrary: clock atts)
  case Nil
  then show ?case by auto
next
  case (Cons i rest)
  show ?case
  proof (cases "Map_get (providers r) i")
    case None
    then show ?thesis using Cons by simp
  next
    case (Some provider)
    obtain duration outcome where c: "chatStream provider request = (duration, outcome)"
      by (cases "chatStream provider request")
    show ?thesis
    proof (cases outcome)
      case (Inl msg)
      show ?thesis
      proof (cases "fallbackEnabled (routingConfig r)")
        case True
        then show ?thesis
          using Cons.prems Cons.IH Some c Inl by (simp add: Let_def)
      next
        case False
        then have "e = ProviderError msg"
          using Cons.prems Some c Inl by (simp add: Let_def)
        then show ?thesis by simp
      qed
    next
      case (Inr resp)
      then show ?thesis
        using Cons.prems Some c by (simp add: Let_def)
    qed
  qed
qed

lemma routeStream_no_limiterError:
  "routeStream r now request = (Inl e, r') \<Longrightarrow> \<not> limiterError e"
proof -
  assume a: "routeStream r now request = (Inl e, r')"
  show ?thesis
  proof (cases "initialized r")
    case False
    then have "e = NotInitialized" using a by (simp add: routeStream_def)
    then show ?thesis by simp
  next
    case True
    show ?thesis
    proof (cases "selectProviders r")
      case (Inl err)
      then have "e = NoProviders"
        using a True by (simp add: routeStream_def selectProviders_def Let_def split: if_splits)
      then show ?thesis by simp
    next
      case (Inr sel)
      then have "routeStreamLoop r request sel now now [] sel = (Inl e, r')"
        using a True by (simp add: routeStream_def)
      then show ?thesis by (rule routeStreamLoop_no_limiterError)
    qed
  qed
qed

end
